theory Spec2Isabelle
  imports Complex_Main "HOL-Library.AList"
begin

section \<open>Cells, strings and Python's conversions\<close>

text \<open>
  A cell of a table is absent (pandas' NaN / None), a text, or an integer. Strings are
  lists of code points below 256, so \<open>length\<close> counts what Python's \<open>len\<close> counts on
  them.
\<close>

datatype cell = Absent | Text string | IntVal int

text \<open>\<open>pd.isna(v)\<close> on a scalar.\<close>

fun isna :: "cell \<Rightarrow> bool" where
  "isna Absent = True"
| "isna (Text s) = False"
| "isna (IntVal i) = False"

text \<open>Python's \<open>not v\<close>: None, the empty string and 0 are falsy.\<close>

fun py_not :: "cell \<Rightarrow> bool" where
  "py_not Absent = True"
| "py_not (Text s) = (s = [])"
| "py_not (IntVal i) = (i = 0)"

definition digit_char :: "nat \<Rightarrow> char" where
  "digit_char d = char_of (48 + d)"

function str_nat :: "nat \<Rightarrow> string" where
  "str_nat n = (if n < 10 then [digit_char n] else str_nat (n div 10) @ [digit_char (n mod 10)])"
  by pat_completeness auto
termination
  by (relation "measure (\<lambda>n. n)") auto

declare str_nat.simps [simp del]

definition str_int :: "int \<Rightarrow> string" where
  "str_int i = (if i < 0 then CHR ''-'' # str_nat (nat (- i)) else str_nat (nat i))"

text \<open>\<open>str(v)\<close>; an absent cell prints as pandas' NaN does.\<close>

fun py_str :: "cell \<Rightarrow> string" where
  "py_str Absent = ''nan''"
| "py_str (Text s) = s"
| "py_str (IntVal i) = str_int i"

text \<open>
  \<open>str.isspace\<close> on one code point below 256: TAB, LF, VT, FF, CR, the four separators
  FS, GS, RS, US, the space, NEL and the no-break space.
\<close>

definition is_space :: "char \<Rightarrow> bool" where
  "is_space c = ((of_char c :: nat) \<in> set [9, 10, 11, 12, 13, 28, 29, 30, 31, 32, 133, 160])"

text \<open>\<open>s.strip()\<close> removes the white space at both ends.\<close>

definition strip :: "string \<Rightarrow> string" where
  "strip s = rev (dropWhile is_space (rev (dropWhile is_space s)))"

section \<open>The translator (translator.py)\<close>

text \<open>
  The external service is a function of the text, the target and the source language. A
  call raises (with the exception's message), or returns a result, whose \<open>text\<close>
  attribute may be missing.
\<close>

datatype reply = Raises string | Result "string option"

type_synonym service = "string \<Rightarrow> string \<Rightarrow> string \<Rightarrow> reply"

text \<open>
  The object state of \<open>TextTranslator\<close> together with the module's flag
  \<open>GOOGLE_TRANSLATE_AVAILABLE\<close>. The constructor leaves \<open>translator\<close> at None when the
  library is missing or its initialisation failed.
\<close>

record TextTranslator =
  google_translate_available :: bool
  translator :: "service option"

text \<open>What a call does besides returning: the delay, the service call, the warning shown.\<close>

datatype effect = Sleep | ServiceCall string string string | Warning string

definition unavailable_marker :: string where
  "unavailable_marker = ''[Translation unavailable] ''"

definition failure_message :: "string \<Rightarrow> string \<Rightarrow> string" where
  "failure_message text_str e =
     ''Translation failed for text '' @ [CHR 0x27] @ take 50 text_str @ ''...'' @ [CHR 0x27]
       @ '': '' @ e"

text \<open>The \<open>try\<close> block of \<open>translate_text\<close> with its \<open>except\<close> handler, on the trimmed text.\<close>

definition attempt_translation ::
  "TextTranslator \<Rightarrow> string \<Rightarrow> string \<Rightarrow> string \<Rightarrow> cell \<times> effect list" where
  "attempt_translation T text_str target_language source_language =
     (case translator T of
        Some svc \<Rightarrow>
          if google_translate_available T then
            (case svc text_str target_language source_language of
               Result (Some t) \<Rightarrow>
                 (Text t, [Sleep, ServiceCall text_str target_language source_language])
             | Result None \<Rightarrow>
                 (Text text_str, [Sleep, ServiceCall text_str target_language source_language])
             | Raises e \<Rightarrow>
                 (Text text_str,
                  [Sleep, ServiceCall text_str target_language source_language,
                   Warning (failure_message text_str e)]))
          else (Text (unavailable_marker @ text_str), [])
      | None \<Rightarrow> (Text (unavailable_marker @ text_str), []))"

definition translate_text ::
  "TextTranslator \<Rightarrow> cell \<Rightarrow> string \<Rightarrow> string \<Rightarrow> cell \<times> effect list" where
  "translate_text T text target_language source_language =
     (if py_not text \<or> isna text then (text, [])
      else
        let text_str = strip (py_str text) in
        if text_str = [] then (text, [])
        else if length text_str < 3 then (text, [])
        else attempt_translation T text_str target_language source_language)"

section \<open>Tables\<close>

text \<open>
  The storage types a column read from a CSV file can have: int64, float64, bool,
  datetime64 and object.
\<close>

datatype dtype = IntDtype | FloatDtype | BoolDtype | DatetimeDtype | ObjectDtype

text \<open>\<open>pd.api.types.is_numeric_dtype\<close>: bool counts as numeric.\<close>

fun is_numeric_dtype :: "dtype \<Rightarrow> bool" where
  "is_numeric_dtype IntDtype = True"
| "is_numeric_dtype FloatDtype = True"
| "is_numeric_dtype BoolDtype = True"
| "is_numeric_dtype DatetimeDtype = False"
| "is_numeric_dtype ObjectDtype = False"

fun is_datetime64_any_dtype :: "dtype \<Rightarrow> bool" where
  "is_datetime64_any_dtype DatetimeDtype = True"
| "is_datetime64_any_dtype IntDtype = False"
| "is_datetime64_any_dtype FloatDtype = False"
| "is_datetime64_any_dtype BoolDtype = False"
| "is_datetime64_any_dtype ObjectDtype = False"

text \<open>The subtypes of \<open>np.number\<close>: bool is not one of them.\<close>

fun is_np_number :: "dtype \<Rightarrow> bool" where
  "is_np_number IntDtype = True"
| "is_np_number FloatDtype = True"
| "is_np_number BoolDtype = False"
| "is_np_number DatetimeDtype = False"
| "is_np_number ObjectDtype = False"

record series =
  dtype :: dtype
  cells :: "cell list"

text \<open>
  A DataFrame: the length of its index and its columns in order, each under its name.
\<close>

record dataframe =
  nrows :: nat
  cols :: "(string \<times> series) list"

definition column_names :: "dataframe \<Rightarrow> string list" where
  "column_names df = map fst (cols df)"

text \<open>\<open>series.dropna()\<close> and \<open>series.notna()\<close>.\<close>

definition dropna :: "cell list \<Rightarrow> cell list" where
  "dropna vs = filter (\<lambda>v. \<not> isna v) vs"

definition notna :: "cell list \<Rightarrow> bool list" where
  "notna vs = map (\<lambda>v. \<not> isna v) vs"

section \<open>translate_dataframe (translator.py)\<close>

text \<open>
  The body of the loop over the non-null values: a value whose stringified, trimmed form
  is empty is kept, every other one goes to \<open>translate_text\<close> with the default source
  language.
\<close>

definition translate_value :: "TextTranslator \<Rightarrow> string \<Rightarrow> cell \<Rightarrow> cell" where
  "translate_value T target_language v =
     (if isna v \<or> strip (py_str v) = [] then v
      else fst (translate_text T v target_language ''auto''))"

text \<open>
  \<open>frame.loc[mask, column] = new\<close>: the cells under a true mask entry take the new values
  in order, the others stay. The source builds \<open>new\<close> from the cells under the mask, so the
  two have the same length.
\<close>

fun loc_assign :: "bool list \<Rightarrow> cell list \<Rightarrow> cell list \<Rightarrow> cell list" where
  "loc_assign (True # ms) (v # vs) (n # ns) = n # loc_assign ms vs ns"
| "loc_assign (False # ms) (v # vs) ns = v # loc_assign ms vs ns"
| "loc_assign ms vs ns = vs"

definition original_name :: "string \<Rightarrow> string" where
  "original_name column = column @ ''_original''"

text \<open>
  The work of one round on the cells: the non-null values of the input column \<open>src\<close> are
  translated one by one and written, under the non-null mask, into the same column \<open>cur\<close>
  of the copy.
\<close>

definition column_update :: "TextTranslator \<Rightarrow> string \<Rightarrow> series \<Rightarrow> series \<Rightarrow> series" where
  "column_update T target_language src cur =
     (let non_null_mask = notna (cells src);
          non_null_values = dropna (cells src);
          translated_values = map (translate_value T target_language) non_null_values
      in cur\<lparr>cells := loc_assign non_null_mask (cells cur) translated_values\<rparr>)"

text \<open>
  One round of the loop over \<open>columns\<close>: \<open>df\<close> is the input table, \<open>translated_df\<close> the copy
  being updated. A name that is not a column of \<open>df\<close> is skipped (with a warning). The
  copy has every column of \<open>df\<close>, so the column looked up in it is there. The warnings, the
  progress bar and the translated column labels kept in the session do not reach the
  returned table.
\<close>

definition translate_column ::
  "TextTranslator \<Rightarrow> dataframe \<Rightarrow> string \<Rightarrow> dataframe \<Rightarrow> string \<Rightarrow> dataframe" where
  "translate_column T df target_language translated_df column =
     (case map_of (cols df) column of
        None \<Rightarrow> translated_df
      | Some src \<Rightarrow>
          let updated =
                (case map_of (cols translated_df) column of
                   None \<Rightarrow> cols translated_df
                 | Some cur \<Rightarrow>
                     AList.update column (column_update T target_language src cur)
                       (cols translated_df));
              original_column_name = original_name column
          in if original_column_name \<in> set (map fst updated)
             then translated_df\<lparr>cols := updated\<rparr>
             else translated_df\<lparr>cols := AList.update original_column_name src updated\<rparr>)"

definition translate_dataframe ::
  "TextTranslator \<Rightarrow> dataframe \<Rightarrow> string list \<Rightarrow> string \<Rightarrow> dataframe" where
  "translate_dataframe T df columns target_language =
     (if columns = [] then df
      else foldl (translate_column T df target_language) df columns)"


text \<open>Every column has as many cells as the index has rows.\<close>

definition well_formed :: "dataframe \<Rightarrow> bool" where
  "well_formed df = list_all (\<lambda>(name, s). length (cells s) = nrows df) (cols df)"

section \<open>The column classifier (utils/csv_analyzer.py)\<close>

datatype py_error = ZeroDivisionError

text \<open>
  The three date patterns are sequences of a character class repeated between a lower and
  an upper number of times: \<open>\d\<close> (on code points below 256 the decimal digits are 0 to 9)
  and \<open>[-/]\<close>.
\<close>

datatype char_class = Digit | DashOrSlash

fun in_class :: "char_class \<Rightarrow> char \<Rightarrow> bool" where
  "in_class Digit c = (48 \<le> (of_char c :: nat) \<and> (of_char c :: nat) \<le> 57)"
| "in_class DashOrSlash c = (c = CHR ''-'' \<or> c = CHR ''/'')"

type_synonym pattern = "(char_class \<times> nat \<times> nat) list"

text \<open>Whether the pattern matches at the start of the string.\<close>

fun match_here :: "pattern \<Rightarrow> string \<Rightarrow> bool" where
  "match_here [] s = True"
| "match_here ((cl, lo, hi) # rest) s =
     list_ex (\<lambda>k. k \<le> length s \<and> list_all (in_class cl) (take k s) \<and> match_here rest (drop k s))
       [lo..<Suc hi]"

text \<open>\<open>re.search(pattern, s)\<close> as a truth value: the pattern matches at some position.\<close>

fun re_search :: "pattern \<Rightarrow> string \<Rightarrow> bool" where
  "re_search p [] = match_here p []"
| "re_search p (c # cs) = (match_here p (c # cs) \<or> re_search p cs)"

definition date_patterns :: "pattern list" where
  "date_patterns =
     [[(Digit, 4, 4), (DashOrSlash, 1, 1), (Digit, 2, 2), (DashOrSlash, 1, 1), (Digit, 2, 2)],
      [(Digit, 2, 2), (DashOrSlash, 1, 1), (Digit, 2, 2), (DashOrSlash, 1, 1), (Digit, 4, 4)],
      [(Digit, 1, 2), (DashOrSlash, 1, 1), (Digit, 1, 2), (DashOrSlash, 1, 1), (Digit, 4, 4)]]"

text \<open>The inner loop of \<open>_contains_dates\<close>: the first pattern found ends it.\<close>

definition matches_date :: "string \<Rightarrow> bool" where
  "matches_date v = list_ex (\<lambda>p. re_search p v) date_patterns"

text \<open>
  \<open>_contains_dates\<close>. The quotient of the two counts is a float in the source; both are at
  most 100, so comparing the rounded quotient with 0.5 is comparing the exact one. On an
  empty series the division raises.
\<close>

definition contains_dates :: "cell list \<Rightarrow> py_error + bool" where
  "contains_dates series =
     (let sample_size = min 100 (length series);
          sample_values = map py_str (take sample_size series);
          date_matches = length (filter matches_date sample_values)
      in if sample_size = 0 then Inl ZeroDivisionError
         else Inr (real date_matches / real sample_size > 1 / 2))"

text \<open>
  \<open>pd.to_numeric(series, errors='raise')\<close> succeeds when every value parses as a number.
  The parser is pandas's; it is a parameter, true on the values it accepts.
\<close>

definition to_numeric_ok :: "(cell \<Rightarrow> bool) \<Rightarrow> cell list \<Rightarrow> bool" where
  "to_numeric_ok parses series = list_all parses series"

definition detect_column_type :: "(cell \<Rightarrow> bool) \<Rightarrow> series \<Rightarrow> py_error + string" where
  "detect_column_type parses s =
     (let non_null_series = dropna (cells s) in
      if length non_null_series = 0 then Inr ''empty''
      else if is_numeric_dtype (dtype s) then Inr ''numeric''
      else if is_datetime64_any_dtype (dtype s) then Inr ''datetime''
      else
        (case contains_dates non_null_series of
           Inl e \<Rightarrow> Inl e
         | Inr True \<Rightarrow> Inr ''datetime''
         | Inr False \<Rightarrow>
             if to_numeric_ok parses non_null_series then Inr ''numeric'' else Inr ''text''))"

text \<open>
  A parser for the examples: it accepts integers and non-empty strings of decimal digits.
\<close>

fun plain_number :: "cell \<Rightarrow> bool" where
  "plain_number Absent = True"
| "plain_number (IntVal i) = True"
| "plain_number (Text s) = (s \<noteq> [] \<and> list_all (in_class Digit) s)"

section \<open>The report (utils/csv_analyzer.py)\<close>

text \<open>
  The analysis of one column: the five entries the report reads, and the entries added by
  the type-specific analysis (minimum, mean, lengths, dates and so on), kept as printed.
\<close>

record col_info =
  col_type :: string
  non_null_count :: nat
  null_count :: nat
  unique_count :: nat
  sample_values :: "cell list"
  type_stats :: "(string \<times> string) list"

text \<open>
  The analysis of a table. \<open>analysis['columns']\<close> is a dict filled in column order, and a
  dict is read in the order it was filled: an association list.
\<close>

record analysis =
  total_rows :: nat
  total_columns :: nat
  memory_usage :: string
  columns_info :: "(string \<times> col_info) list"
  text_columns :: "string list"
  numeric_columns :: "string list"
  date_columns :: "string list"
  total_missing_values :: nat

fun join :: "string \<Rightarrow> string list \<Rightarrow> string" where
  "join sep [] = []"
| "join sep [x] = x"
| "join sep (x # y # ys) = x @ sep @ join sep (y # ys)"

text \<open>How a list prints: the \<open>repr\<close> of its items (Python's built-in, a parameter).\<close>

definition str_list :: "(cell \<Rightarrow> string) \<Rightarrow> cell list \<Rightarrow> string" where
  "str_list repr vs = ''['' @ join '', '' (map repr vs) @ '']''"

definition column_block :: "(cell \<Rightarrow> string) \<Rightarrow> string \<times> col_info \<Rightarrow> string list" where
  "column_block repr entry =
     (case entry of (col_name, info) \<Rightarrow>
        [[CHR 0x0A] @ ''Column: '' @ col_name,
         ''  Type: '' @ col_type info,
         ''  Non-null Count: '' @ str_nat (non_null_count info),
         ''  Null Count: '' @ str_nat (null_count info),
         ''  Unique Count: '' @ str_nat (unique_count info),
         ''  Sample Values: '' @ str_list repr (sample_values info)])"

definition generate_report :: "(cell \<Rightarrow> string) \<Rightarrow> analysis \<Rightarrow> string" where
  "generate_report repr a =
     join [CHR 0x0A]
       ([''CSV DATA ANALYSIS REPORT'',
         replicate 30 (CHR ''=''),
         ''Total Rows: '' @ str_nat (total_rows a),
         ''Total Columns: '' @ str_nat (total_columns a),
         ''Memory Usage: '' @ memory_usage a,
         ''Missing Values: '' @ str_nat (total_missing_values a),
         [],
         ''COLUMN BREAKDOWN:'',
         replicate 20 (CHR ''-''),
         ''Text Columns: '' @ str_nat (length (text_columns a))]
        @ map (\<lambda>col. ''  - '' @ col) (text_columns a)
        @ [''Numeric Columns: '' @ str_nat (length (numeric_columns a))]
        @ map (\<lambda>col. ''  - '' @ col) (numeric_columns a)
        @ [''Date Columns: '' @ str_nat (length (date_columns a))]
        @ map (\<lambda>col. ''  - '' @ col) (date_columns a)
        @ [[],
           ''DETAILED COLUMN ANALYSIS:'',
           replicate 30 (CHR ''-'')]
        @ concat (map (column_block repr) (columns_info a)))"

text \<open>What \<open>generate_report\<close> reads of an analysis.\<close>

definition read_of_column ::
  "string \<times> col_info \<Rightarrow> string \<times> string \<times> nat \<times> nat \<times> nat \<times> cell list" where
  "read_of_column entry =
     (case entry of (col_name, info) \<Rightarrow>
        (col_name, col_type info, non_null_count info, null_count info, unique_count info,
         sample_values info))"

definition same_profile :: "analysis \<Rightarrow> analysis \<Rightarrow> bool" where
  "same_profile a b =
     (total_rows a = total_rows b \<and> total_columns a = total_columns b
      \<and> memory_usage a = memory_usage b \<and> total_missing_values a = total_missing_values b
      \<and> text_columns a = text_columns b \<and> numeric_columns a = numeric_columns b
      \<and> date_columns a = date_columns b
      \<and> map read_of_column (columns_info a) = map read_of_column (columns_info b))"

section \<open>The correlation heatmap (visualizer.py)\<close>

text \<open>
  A figure: its title, the texts of its annotations, and the image drawn, if any. The
  correlation matrix and its image are the work of pandas and plotly: a parameter, which
  gives the image or raises (with the exception's message).
\<close>

record 'm figure =
  fig_title :: string
  fig_annotations :: "string list"
  fig_image :: "'m option"

text \<open>\<open>df.select_dtypes(include=[np.number])\<close> and \<open>df.empty\<close> (an axis of length 0).\<close>

definition select_dtypes_number :: "dataframe \<Rightarrow> dataframe" where
  "select_dtypes_number df = df\<lparr>cols := filter (\<lambda>(name, s). is_np_number (dtype s)) (cols df)\<rparr>"

definition df_empty :: "dataframe \<Rightarrow> bool" where
  "df_empty df = (nrows df = 0 \<or> cols df = [])"

definition create_correlation_heatmap ::
  "(dataframe \<Rightarrow> string + 'm) \<Rightarrow> dataframe \<Rightarrow> 'm figure" where
  "create_correlation_heatmap corr_image df =
     (let numeric_df = select_dtypes_number df in
      if df_empty numeric_df \<or> length (cols numeric_df) < 2 then
        \<lparr>fig_title = ''Correlation Matrix'',
         fig_annotations = [''Need at least 2 numeric columns for correlation analysis''],
         fig_image = None\<rparr>
      else
        (case corr_image numeric_df of
           Inr img \<Rightarrow>
             \<lparr>fig_title = ''Correlation Matrix'', fig_annotations = [], fig_image = Some img\<rparr>
         | Inl e \<Rightarrow>
             \<lparr>fig_title = ''Correlation Matrix'',
              fig_annotations = [''Error creating correlation heatmap: '' @ e],
              fig_image = None\<rparr>))"

section \<open>Example translators and tables\<close>

text \<open>The library is missing: no translator object, the flag is off.\<close>

definition unconfigured :: TextTranslator where
  "unconfigured = \<lparr>google_translate_available = False, translator = None\<rparr>"


definition tagging_service :: service where
  "tagging_service t dest src = Result (Some (dest @ '':'' @ t))"


definition tagging_translator :: TextTranslator where
  "tagging_translator = \<lparr>google_translate_available = True, translator = Some tagging_service\<rparr>"

definition object_series :: "cell list \<Rightarrow> series" where
  "object_series vs = \<lparr>dtype = ObjectDtype, cells = vs\<rparr>"

definition greetings :: dataframe where
  "greetings =
     \<lparr>nrows = 2,
      cols = [(''a'', object_series [Text ''hello'', Absent]),
              (''b'', object_series [Text ''good day'', Text ''ok''])]\<rparr>"

definition greetings_with_original :: dataframe where
  "greetings_with_original =
     \<lparr>nrows = 1,
      cols = [(''a'', object_series [Text ''hello'']),
              (''a_original'', object_series [Text ''world''])]\<rparr>"

definition all_absent_floats :: series where
  "all_absent_floats = \<lparr>dtype = FloatDtype, cells = [Absent, Absent]\<rparr>"

definition some_floats :: series where
  "some_floats = \<lparr>dtype = FloatDtype, cells = [Absent, IntVal 7]\<rparr>"

definition one_numeric_column :: dataframe where
  "one_numeric_column =
     \<lparr>nrows = 2,
      cols = [(''score'', \<lparr>dtype = IntDtype, cells = [IntVal 3, IntVal 5]\<rparr>),
              (''comment'', object_series [Text ''fine'', Text ''good''])]\<rparr>"

definition failing_corr :: "dataframe \<Rightarrow> string + unit" where
  "failing_corr df = Inl ''no image''"

definition small_profile :: "(string \<times> string) list \<Rightarrow> analysis" where
  "small_profile stats =
     \<lparr>total_rows = 2, total_columns = 1, memory_usage = ''132 bytes'',
      columns_info =
        [(''score'',
          \<lparr>col_type = ''numeric'', non_null_count = 2, null_count = 0, unique_count = 2,
           sample_values = [IntVal 3, IntVal 5], type_stats = stats\<rparr>)],
      text_columns = [], numeric_columns = [''score''], date_columns = [],
      total_missing_values = 0\<rparr>"

section \<open>Facts about the conversions\<close>





section \<open>Facts about translate_dataframe\<close>


lemma loc_assign_length: "length (loc_assign ms vs ns) = length vs"
  by (induction ms vs ns rule: loc_assign.induct) auto

lemma original_name_neq: "original_name c \<noteq> c"
  by (simp add: original_name_def)

lemma original_name_inj: "original_name c = original_name d \<Longrightarrow> c = d"
  by (simp add: original_name_def)


lemma in_names_iff: "k \<in> set (column_names df) \<longleftrightarrow> map_of (cols df) k \<noteq> None"
  by (simp add: column_names_def map_of_eq_None_iff)

lemma in_fst_iff: "k \<in> fst ` set al \<longleftrightarrow> map_of al k \<noteq> None"
  by (simp add: map_of_eq_None_iff)

lemma map_of_translate_column:
  "map_of (cols (translate_column T df tgt tdf c)) =
     (case map_of (cols df) c of
        None \<Rightarrow> map_of (cols tdf)
      | Some src \<Rightarrow>
          let m = (case map_of (cols tdf) c of
                     None \<Rightarrow> map_of (cols tdf)
                   | Some cur \<Rightarrow> (map_of (cols tdf))(c \<mapsto> column_update T tgt src cur))
          in if m (original_name c) = None then m(original_name c \<mapsto> src) else m)"
  by (auto simp: translate_column_def Let_def update_conv' in_fst_iff
      split: option.splits)

lemma translate_column_other:
  "k \<noteq> c \<Longrightarrow> k \<in> set (column_names tdf) \<or> k \<noteq> original_name c \<Longrightarrow>
   map_of (cols (translate_column T df tgt tdf c)) k = map_of (cols tdf) k"
  by (auto simp: map_of_translate_column in_names_iff Let_def split: option.splits)

lemma translate_column_nrows: "nrows (translate_column T df tgt tdf c) = nrows tdf"
  by (auto simp: translate_column_def Let_def split: option.splits)

lemma translate_column_names_mono:
  "k \<in> set (column_names tdf) \<Longrightarrow> k \<in> set (column_names (translate_column T df tgt tdf c))"
  by (auto simp: in_names_iff map_of_translate_column Let_def split: option.splits)

lemma translate_column_creates:
  "map_of (cols df) c = Some src \<Longrightarrow> original_name c \<notin> set (column_names tdf) \<Longrightarrow>
   map_of (cols (translate_column T df tgt tdf c)) (original_name c) = Some src"
  by (auto simp: in_names_iff map_of_translate_column Let_def original_name_neq
      split: option.splits)



lemma fold_nrows: "nrows (foldl (translate_column T df tgt) tdf cs) = nrows tdf"
  by (induction cs arbitrary: tdf) (simp_all add: translate_column_nrows)

lemma fold_frame:
  "k \<notin> set cs \<Longrightarrow> k \<in> set (column_names tdf) \<Longrightarrow>
   map_of (cols (foldl (translate_column T df tgt) tdf cs)) k = map_of (cols tdf) k"
proof (induction cs arbitrary: tdf)
  case Nil
  then show ?case by simp
next
  case (Cons c cs)
  let ?next = "translate_column T df tgt tdf c"
  from Cons.prems have "k \<noteq> c" and rest: "k \<notin> set cs" by auto
  with Cons.prems have same: "map_of (cols ?next) k = map_of (cols tdf) k"
    by (simp add: translate_column_other)
  have "k \<in> set (column_names ?next)"
    using Cons.prems by (simp add: translate_column_names_mono)
  with rest have "map_of (cols (foldl (translate_column T df tgt) ?next cs)) k = map_of (cols ?next) k"
    by (rule Cons.IH)
  with same show ?case by simp
qed

lemma translate_column_keeps_original:
  assumes "map_of (cols tdf) (original_name c) = Some src"
    and "original_name c \<notin> set (column_names df)"
  shows "map_of (cols (translate_column T df tgt tdf k)) (original_name c) = Some src"
proof (cases "k \<in> set (column_names df)")
  case True
  with assms(2) have "original_name c \<noteq> k" by auto
  moreover from assms(1) have "original_name c \<in> set (column_names tdf)"
    by (simp add: in_names_iff)
  ultimately show ?thesis using assms(1) by (simp add: translate_column_other)
next
  case False
  then show ?thesis using assms(1)
    by (simp add: in_names_iff map_of_translate_column)
qed

lemma fold_keeps_original:
  "map_of (cols tdf) (original_name c) = Some src \<Longrightarrow>
   original_name c \<notin> set (column_names df) \<Longrightarrow>
   map_of (cols (foldl (translate_column T df tgt) tdf cs)) (original_name c) = Some src"
  by (induction cs arbitrary: tdf) (simp_all add: translate_column_keeps_original)

lemma fold_original:
  assumes "c \<in> set cs"
    and "map_of (cols df) c = Some src"
    and "original_name c \<notin> set (column_names df)"
    and "map_of (cols tdf) (original_name c) = None \<or> map_of (cols tdf) (original_name c) = Some src"
  shows "map_of (cols (foldl (translate_column T df tgt) tdf cs)) (original_name c) = Some src"
  using assms(1,4)
proof (induction cs arbitrary: tdf)
  case Nil
  then show ?case by simp
next
  case (Cons k cs)
  let ?next = "translate_column T df tgt tdf k"
  show ?case
  proof (cases "map_of (cols tdf) (original_name c) = Some src")
    case True
    then have "map_of (cols ?next) (original_name c) = Some src"
      using assms(3) by (rule translate_column_keeps_original)
    then show ?thesis using assms(3) by (simp add: fold_keeps_original)
  next
    case False
    with Cons.prems have absent: "map_of (cols tdf) (original_name c) = None" by simp
    show ?thesis
    proof (cases "k = c")
      case True
      from absent have "original_name c \<notin> set (column_names tdf)" by (simp add: in_names_iff)
      with assms(2) have "map_of (cols ?next) (original_name c) = Some src"
        unfolding True by (rule translate_column_creates)
      then show ?thesis using assms(3) by (simp add: fold_keeps_original)
    next
      case False
      with Cons.prems have "c \<in> set cs" by simp
      moreover have "map_of (cols ?next) (original_name c) = None"
      proof (cases "k \<in> set (column_names df)")
        case True
        with assms(3) have "original_name c \<noteq> k" by auto
        moreover from False have "original_name c \<noteq> original_name k"
          using original_name_inj by blast
        ultimately show ?thesis using absent by (simp add: translate_column_other)
      next
        case False
        then show ?thesis using absent by (simp add: in_names_iff map_of_translate_column)
      qed
      ultimately show ?thesis using Cons.IH by simp
    qed
  qed
qed











lemma set_update_subset: "set (AList.update k v al) \<subseteq> insert (k, v) (set al)"
  by (induction al) auto

lemma translate_column_well_formed:
  assumes "well_formed df" and "well_formed tdf" and "nrows tdf = nrows df"
  shows "well_formed (translate_column T df tgt tdf c)"
proof (cases "map_of (cols df) c")
  case None
  then show ?thesis using assms(2) by (simp add: translate_column_def)
next
  case (Some src)
  then have "(c, src) \<in> set (cols df)" by (rule map_of_SomeD)
  with assms(1) have src: "length (cells src) = nrows df"
    by (auto simp: well_formed_def list_all_iff)
  define upd where "upd = (case map_of (cols tdf) c of None \<Rightarrow> cols tdf
      | Some cur \<Rightarrow> AList.update c (column_update T tgt src cur) (cols tdf))"
  have upd_ok: "length (cells s) = nrows df" if "(n, s) \<in> set upd" for n s
  proof (cases "map_of (cols tdf) c")
    case None
    with that assms(2,3) show ?thesis by (auto simp: upd_def well_formed_def list_all_iff)
  next
    case (Some cur)
    then have "(c, cur) \<in> set (cols tdf)" by (rule map_of_SomeD)
    with assms(2,3) have "length (cells cur) = nrows df"
      by (auto simp: well_formed_def list_all_iff)
    then have "length (cells (column_update T tgt src cur)) = nrows df"
      by (simp add: column_update_def loc_assign_length Let_def)
    moreover from that Some have "(n, s) = (c, column_update T tgt src cur) \<or> (n, s) \<in> set (cols tdf)"
      using set_update_subset [of c "column_update T tgt src cur" "cols tdf"] by (auto simp: upd_def)
    ultimately show ?thesis using assms(2,3) by (auto simp: well_formed_def list_all_iff)
  qed
  have res: "cols (translate_column T df tgt tdf c) =
      (if original_name c \<in> set (map fst upd) then upd else AList.update (original_name c) src upd)"
    using Some by (simp add: translate_column_def Let_def upd_def)
  have "length (cells s) = nrows df" if "(n, s) \<in> set (cols (translate_column T df tgt tdf c))" for n s
  proof (cases "original_name c \<in> set (map fst upd)")
    case True
    with that res upd_ok show ?thesis by auto
  next
    case False
    with that res have "(n, s) = (original_name c, src) \<or> (n, s) \<in> set upd"
      using set_update_subset [of "original_name c" src upd] by auto
    with src upd_ok show ?thesis by auto
  qed
  then show ?thesis
    using assms(3) by (auto simp: well_formed_def list_all_iff translate_column_nrows)
qed

lemma fold_well_formed:
  "well_formed df \<Longrightarrow> well_formed tdf \<Longrightarrow> nrows tdf = nrows df \<Longrightarrow>
   well_formed (foldl (translate_column T df tgt) tdf cs)"
  by (induction cs arbitrary: tdf) (simp_all add: translate_column_well_formed translate_column_nrows)



section \<open>Facts about the classifier\<close>

lemma contains_dates_nonempty:
  "series \<noteq> [] \<Longrightarrow>
   contains_dates series =
     Inr (real (length (filter matches_date (map py_str (take 100 series))))
            / real (length (take 100 series)) > 1 / 2)"
  by (cases series) (simp_all add: contains_dates_def Let_def min_def)

section \<open>Facts about the report\<close>

lemma column_block_read:
  assumes "read_of_column x = read_of_column y"
  shows "column_block repr x = column_block repr y"
proof -
  obtain n i where x: "x = (n, i)" by (cases x)
  obtain m j where y: "y = (m, j)" by (cases y)
  from assms have "n = m" "col_type i = col_type j" "non_null_count i = non_null_count j"
    "null_count i = null_count j" "unique_count i = unique_count j"
    "sample_values i = sample_values j"
    unfolding x y by (simp_all add: read_of_column_def)
  then show ?thesis
    unfolding x y column_block_def by simp
qed

lemma column_blocks_read:
  "map read_of_column xs = map read_of_column ys \<Longrightarrow>
   map (column_block repr) xs = map (column_block repr) ys"
proof (induction xs arbitrary: ys)
  case Nil
  then show ?case by simp
next
  case (Cons x xs)
  then obtain y ys' where ys: "ys = y # ys'" by (cases ys) auto
  with Cons.prems have head: "read_of_column x = read_of_column y"
    and tail: "map read_of_column xs = map read_of_column ys'"
    by simp_all
  from head have "column_block repr x = column_block repr y" by (rule column_block_read)
  moreover from tail have "map (column_block repr) xs = map (column_block repr) ys'"
    by (rule Cons.IH)
  ultimately show ?case unfolding ys by simp
qed

section \<open>Claims about translate_text\<close>






section \<open>Claims about translate_dataframe\<close>

text \<open>
  C3, as the code has it. For a selected column \<open>c\<close> of the input table, when the input
  has no column named \<open>c_original\<close> already, the returned table has a column
  \<open>c_original\<close> that is the input column \<open>c\<close> as it was before translation.
\<close>

theorem translate_dataframe_original:
  assumes "c \<in> set columns"
    and "map_of (cols df) c = Some src"
    and "original_name c \<notin> set (column_names df)"
  shows "map_of (cols (translate_dataframe T df columns tgt)) (original_name c) = Some src"
proof -
  from assms(1) have "columns \<noteq> []" by auto
  moreover from assms(3) have "map_of (cols df) (original_name c) = None"
    by (simp add: in_names_iff)
  then have "map_of (cols (foldl (translate_column T df tgt) df columns)) (original_name c)
      = Some src"
    using assms by (simp add: fold_original)
  ultimately show ?thesis by (simp add: translate_dataframe_def)
qed

theorem translate_dataframe_original_witness:
  "map_of (cols (translate_dataframe tagging_translator greetings [''a''] ''es'')) ''a_original''
     = Some (object_series [Text ''hello'', Absent])
   \<and> map_of (cols (translate_dataframe tagging_translator greetings [''a''] ''es'')) ''a''
     = Some (object_series [Text ''es:hello'', Absent])"
proof -
  have sel: "''a'' \<in> set [''a'']" by simp
  have col: "map_of (cols greetings) ''a'' = Some (object_series [Text ''hello'', Absent])"
    by code_simp
  have fresh: "original_name ''a'' \<notin> set (column_names greetings)" by code_simp
  have name: "original_name ''a'' = ''a_original''" by code_simp
  have "map_of (cols (translate_dataframe tagging_translator greetings [''a''] ''es''))
      (original_name ''a'') = Some (object_series [Text ''hello'', Absent])"
    using sel col fresh by (rule translate_dataframe_original)
  moreover have "map_of (cols (translate_dataframe tagging_translator greetings [''a''] ''es'')) ''a''
     = Some (object_series [Text ''es:hello'', Absent])"
    by code_simp
  ultimately show ?thesis by (simp add: name)
qed

theorem translate_dataframe_original_kept:
  "map_of (cols (translate_dataframe unconfigured greetings_with_original [''a''] ''es''))
     (original_name ''a'') = Some (object_series [Text ''world''])
   \<and> map_of (cols greetings_with_original) ''a'' = Some (object_series [Text ''hello''])
   \<and> object_series [Text ''world''] \<noteq> object_series [Text ''hello'']"
  by code_simp

text \<open>
  C9. \<open>translate_dataframe\<close> keeps the number of rows, every column of the returned table
  has that many cells when the input's columns do, and a column of the input that is not
  in the selected list is returned as it was.
\<close>

theorem translate_dataframe_frame:
  "nrows (translate_dataframe T df columns tgt) = nrows df
   \<and> (well_formed df \<longrightarrow> well_formed (translate_dataframe T df columns tgt))
   \<and> (k \<notin> set columns \<longrightarrow> k \<in> set (column_names df) \<longrightarrow>
        map_of (cols (translate_dataframe T df columns tgt)) k = map_of (cols df) k)"
  by (simp add: translate_dataframe_def fold_nrows fold_well_formed fold_frame)

theorem translate_dataframe_frame_witness:
  "nrows (translate_dataframe tagging_translator greetings [''a''] ''es'') = 2
   \<and> well_formed (translate_dataframe tagging_translator greetings [''a''] ''es'')
   \<and> map_of (cols (translate_dataframe tagging_translator greetings [''a''] ''es'')) ''b''
      = Some (object_series [Text ''good day'', Text ''ok''])"
proof -
  have wf: "well_formed greetings" by code_simp
  have notsel: "''b'' \<notin> set [''a'']" by simp
  have isin: "''b'' \<in> set (column_names greetings)" by code_simp
  have colb: "map_of (cols greetings) ''b'' = Some (object_series [Text ''good day'', Text ''ok''])"
    by code_simp
  have rows: "nrows greetings = 2" by code_simp
  from translate_dataframe_frame
    [where T = tagging_translator and df = greetings and columns = "[''a'']" and tgt = "''es''"
       and k = "''b''"]
    wf notsel isin colb rows
  show ?thesis by simp
qed

text \<open>
  C10, as the code has it. When the input table already has a column \<open>c_original\<close> for a
  selected column \<open>c\<close>, and \<open>c_original\<close> is not itself among the selected columns, the
  returned table has under that name the column of the input, unchanged; the values of
  \<open>c\<close> are not copied there.
\<close>

theorem translate_dataframe_existing_original:
  assumes "c \<in> set columns"
    and "c \<in> set (column_names df)"
    and "original_name c \<in> set (column_names df)"
    and "original_name c \<notin> set columns"
  shows "map_of (cols (translate_dataframe T df columns tgt)) (original_name c)
         = map_of (cols df) (original_name c)"
  using assms(3,4) by (simp add: translate_dataframe_def fold_frame)

theorem translate_dataframe_existing_original_witness:
  "map_of (cols (translate_dataframe unconfigured greetings_with_original [''a''] ''es''))
     ''a_original'' = Some (object_series [Text ''world''])"
proof -
  have sel: "''a'' \<in> set [''a'']" by simp
  have isin: "''a'' \<in> set (column_names greetings_with_original)" by code_simp
  have has: "original_name ''a'' \<in> set (column_names greetings_with_original)" by code_simp
  have notsel: "original_name ''a'' \<notin> set [''a'']" by code_simp
  have name: "original_name ''a'' = ''a_original''" by code_simp
  have old: "map_of (cols greetings_with_original) ''a_original''
      = Some (object_series [Text ''world''])"
    by code_simp
  from translate_dataframe_existing_original [OF sel isin has notsel, of unconfigured "''es''"]
  show ?thesis by (simp add: name old)
qed

theorem translate_dataframe_original_translated:
  "map_of (cols (translate_dataframe unconfigured greetings_with_original
                   [''a'', ''a_original''] ''es'')) (original_name ''a'')
     = Some (object_series [Text ''[Translation unavailable] world''])
   \<and> map_of (cols greetings_with_original) (original_name ''a'')
     = Some (object_series [Text ''world''])
   \<and> object_series [Text ''[Translation unavailable] world''] \<noteq> object_series [Text ''world'']"
  by code_simp

section \<open>Claims about the classifier\<close>

text \<open>
  C1, as the code has it. A column whose storage type is numeric is classified
  \<open>numeric\<close> whatever its present values are, provided it has one; when every value is
  absent the first test wins and the column is classified \<open>empty\<close>.
\<close>

theorem detect_numeric_dtype:
  "is_numeric_dtype (dtype s) \<Longrightarrow>
   detect_column_type parses s =
     Inr (if list_all isna (cells s) then ''empty'' else ''numeric'')"
  by (auto simp: detect_column_type_def Let_def dropna_def filter_empty_conv list_all_iff)

theorem detect_numeric_dtype_witness:
  "is_numeric_dtype (dtype some_floats)
   \<and> detect_column_type plain_number some_floats = Inr ''numeric''"
proof -
  have num: "is_numeric_dtype (dtype some_floats)" by code_simp
  have present: "\<not> list_all isna (cells some_floats)" by code_simp
  from detect_numeric_dtype [OF num, of plain_number] present num show ?thesis by simp
qed

theorem detect_numeric_dtype_all_absent:
  "is_numeric_dtype (dtype all_absent_floats)
   \<and> list_all isna (cells all_absent_floats)
   \<and> detect_column_type plain_number all_absent_floats = Inr ''empty''
   \<and> detect_column_type plain_number all_absent_floats \<noteq> Inr ''numeric''"
  by code_simp

text \<open>
  C5. For a column whose storage type is neither numeric nor a date type and that has a
  present value, the classifier answers \<open>datetime\<close> exactly when, among the first 100
  present values, stringified, the fraction of those in which one of the three date
  patterns is found is greater than one half. The column of the three dates of 2021 is
  classified \<open>datetime\<close>.
\<close>

theorem detect_datetime_threshold:
  "(\<not> is_numeric_dtype (dtype s) \<longrightarrow> \<not> is_datetime64_any_dtype (dtype s) \<longrightarrow>
      dropna (cells s) \<noteq> [] \<longrightarrow>
      (detect_column_type parses s = Inr ''datetime'') =
        (real (length (filter matches_date (map py_str (take 100 (dropna (cells s))))))
           / real (length (take 100 (dropna (cells s)))) > 1 / 2))
   \<and> detect_column_type parses
        (object_series [Text ''2021-01-01'', Text ''2021-02-01'', Text ''2021-03-01''])
      = Inr ''datetime''"
proof (intro conjI impI)
  assume "\<not> is_numeric_dtype (dtype s)" and "\<not> is_datetime64_any_dtype (dtype s)"
    and "dropna (cells s) \<noteq> []"
  then show "(detect_column_type parses s = Inr ''datetime'') =
        (real (length (filter matches_date (map py_str (take 100 (dropna (cells s))))))
           / real (length (take 100 (dropna (cells s)))) > 1 / 2)"
    by (simp add: detect_column_type_def Let_def contains_dates_nonempty split: bool.splits)
next
  have d1: "matches_date ''2021-01-01''" by code_simp
  have d2: "matches_date ''2021-02-01''" by code_simp
  have d3: "matches_date ''2021-03-01''" by code_simp
  show "detect_column_type parses
        (object_series [Text ''2021-01-01'', Text ''2021-02-01'', Text ''2021-03-01''])
      = Inr ''datetime''"
    by (simp add: detect_column_type_def Let_def contains_dates_def object_series_def dropna_def
        d1 d2 d3)
qed


text \<open>
  C6. For a column whose storage type is neither numeric nor a date type and in which the
  date patterns do not reach the threshold, one present value that does not parse as a
  number is enough for the classifier to answer \<open>text\<close>. The column of "12", "7" and
  "abc" is classified \<open>text\<close> by every parser that rejects "abc".
\<close>

theorem detect_text_forced:
  "(\<not> is_numeric_dtype (dtype s) \<longrightarrow> \<not> is_datetime64_any_dtype (dtype s) \<longrightarrow>
      contains_dates (dropna (cells s)) = Inr False \<longrightarrow>
      v \<in> set (cells s) \<longrightarrow> \<not> isna v \<longrightarrow> \<not> parses v \<longrightarrow>
      detect_column_type parses s = Inr ''text'')
   \<and> (\<not> parses (Text ''abc'') \<longrightarrow>
      detect_column_type parses (object_series [Text ''12'', Text ''7'', Text ''abc''])
      = Inr ''text'')"
proof (intro conjI impI)
  assume ty: "\<not> is_numeric_dtype (dtype s)" "\<not> is_datetime64_any_dtype (dtype s)"
    and nodate: "contains_dates (dropna (cells s)) = Inr False"
    and v: "v \<in> set (cells s)" "\<not> isna v" "\<not> parses v"
  from v have mem: "v \<in> set (dropna (cells s))" by (simp add: dropna_def)
  then have "dropna (cells s) \<noteq> []" by auto
  moreover from mem v(3) have "\<not> to_numeric_ok parses (dropna (cells s))"
    by (auto simp: to_numeric_ok_def list_all_iff)
  ultimately show "detect_column_type parses s = Inr ''text''"
    using ty nodate by (simp add: detect_column_type_def Let_def)
next
  assume abc: "\<not> parses (Text ''abc'')"
  have n1: "\<not> matches_date ''12''" by code_simp
  have n2: "\<not> matches_date ''7''" by code_simp
  have n3: "\<not> matches_date ''abc''" by code_simp
  from abc show "detect_column_type parses (object_series [Text ''12'', Text ''7'', Text ''abc''])
      = Inr ''text''"
    by (simp add: detect_column_type_def Let_def contains_dates_def object_series_def dropna_def
        to_numeric_ok_def n1 n2 n3)
qed

theorem detect_text_forced_witness:
  "detect_column_type plain_number (object_series [Text ''12'', Text ''7'', Text ''abc''])
     = Inr ''text''
   \<and> detect_column_type plain_number (object_series [Text ''12'', Text ''7'']) = Inr ''numeric''"
proof -
  let ?s = "object_series [Text ''12'', Text ''7'', Text ''abc'']"
  have t1: "\<not> is_numeric_dtype (dtype ?s)" by code_simp
  have t2: "\<not> is_datetime64_any_dtype (dtype ?s)" by code_simp
  have nd: "contains_dates (dropna (cells ?s)) = Inr False" by code_simp
  have mem: "Text ''abc'' \<in> set (cells ?s)" by (simp add: object_series_def)
  have present: "\<not> isna (Text ''abc'')" by simp
  have rej: "\<not> plain_number (Text ''abc'')" by code_simp
  have "detect_column_type plain_number ?s = Inr ''text''"
    using detect_text_forced [where s = "?s" and v = "Text ''abc''" and parses = plain_number]
      t1 t2 nd mem present rej by blast
  moreover have "detect_column_type plain_number (object_series [Text ''12'', Text ''7''])
      = Inr ''numeric''"
    by code_simp
  ultimately show ?thesis by simp
qed

theorem detect_datetime_threshold_witness:
  "detect_column_type plain_number (object_series [Text ''1/2/2020'', Text ''7'', Text ''x 12-31-1999''])
     = Inr ''datetime''
   \<and> detect_column_type plain_number (object_series [Text ''1/2/2020'', Text ''7'']) \<noteq> Inr ''datetime''"
proof -
  let ?s = "object_series [Text ''1/2/2020'', Text ''7'', Text ''x 12-31-1999'']"
  let ?t = "object_series [Text ''1/2/2020'', Text ''7'']"
  have s1: "\<not> is_numeric_dtype (dtype ?s)" "\<not> is_datetime64_any_dtype (dtype ?s)"
    "dropna (cells ?s) \<noteq> []"
    by code_simp+
  have t1: "\<not> is_numeric_dtype (dtype ?t)" "\<not> is_datetime64_any_dtype (dtype ?t)"
    "dropna (cells ?t) \<noteq> []"
    by code_simp+
  have ds: "dropna (cells ?s) = [Text ''1/2/2020'', Text ''7'', Text ''x 12-31-1999'']"
    by code_simp
  have dt: "dropna (cells ?t) = [Text ''1/2/2020'', Text ''7'']"
    by code_simp
  have m1: "matches_date ''1/2/2020''" by code_simp
  have m2: "\<not> matches_date ''7''" by code_simp
  have m3: "matches_date ''x 12-31-1999''" by code_simp
  have "detect_column_type plain_number ?s = Inr ''datetime''"
    using detect_datetime_threshold [where s = "?s" and parses = plain_number] s1
    by (simp add: ds m1 m2 m3)
  moreover have "detect_column_type plain_number ?t \<noteq> Inr ''datetime''"
    using detect_datetime_threshold [where s = "?t" and parses = plain_number] t1
    by (simp add: dt m1 m2)
  ultimately show ?thesis by simp
qed

section \<open>Claims about the report\<close>

text \<open>
  C7. The report is a function of the analysis alone: \<open>generate_report\<close> reads no clock, no
  random source and no unordered container. Two analyses that agree on every entry the
  report reads, in particular one analysis given twice, produce the same text, character
  for character.
\<close>

theorem generate_report_deterministic:
  assumes "same_profile a b"
  shows "generate_report repr a = generate_report repr b"
proof -
  from assms have fields:
    "total_rows a = total_rows b" "total_columns a = total_columns b"
    "memory_usage a = memory_usage b" "total_missing_values a = total_missing_values b"
    "text_columns a = text_columns b" "numeric_columns a = numeric_columns b"
    "date_columns a = date_columns b"
    and infos: "map read_of_column (columns_info a) = map read_of_column (columns_info b)"
    by (simp_all add: same_profile_def)
  from infos have blocks:
    "map (column_block repr) (columns_info a) = map (column_block repr) (columns_info b)"
    by (rule column_blocks_read)
  show ?thesis
    unfolding generate_report_def fields blocks by (rule refl)
qed

theorem generate_report_deterministic_witness:
  "same_profile (small_profile []) (small_profile [(''min_value'', ''3'')])
   \<and> generate_report py_str (small_profile [])
     = generate_report py_str (small_profile [(''min_value'', ''3'')])"
proof -
  have same: "same_profile (small_profile []) (small_profile [(''min_value'', ''3'')])"
    by code_simp
  from generate_report_deterministic [OF same, of py_str] same show ?thesis by simp
qed

section \<open>Claims about the heatmap\<close>

text \<open>
  C8. On a table with fewer than two columns of a numeric storage type,
  \<open>create_correlation_heatmap\<close> returns the placeholder figure, with its message in place of
  a correlation matrix; the correlation is not computed, so nothing can raise.
\<close>

theorem heatmap_placeholder:
  "length (filter (\<lambda>(name, s). is_np_number (dtype s)) (cols df)) < 2 \<Longrightarrow>
   create_correlation_heatmap corr_image df =
     \<lparr>fig_title = ''Correlation Matrix'',
      fig_annotations = [''Need at least 2 numeric columns for correlation analysis''],
      fig_image = None\<rparr>"
  by (simp add: create_correlation_heatmap_def select_dtypes_number_def Let_def)

theorem heatmap_placeholder_witness:
  "length (filter (\<lambda>(name, s). is_np_number (dtype s)) (cols one_numeric_column)) = 1
   \<and> create_correlation_heatmap failing_corr one_numeric_column =
     \<lparr>fig_title = ''Correlation Matrix'',
      fig_annotations = [''Need at least 2 numeric columns for correlation analysis''],
      fig_image = None\<rparr>"
proof -
  have one: "length (filter (\<lambda>(name, s). is_np_number (dtype s)) (cols one_numeric_column)) = 1"
    by code_simp
  then have "length (filter (\<lambda>(name, s). is_np_number (dtype s)) (cols one_numeric_column)) < 2"
    by simp
  from heatmap_placeholder [OF this, of failing_corr] one show ?thesis by simp
qed

end
